theory Spec2Isabelle
  imports Main
begin

section \<open>BaseLayer of fontParts (Lib/fontParts/objects/base/layer.py)\<close>

text \<open>
  The module defines one class, \<^verbatim>\<open>BaseLayer\<close>: property accessors that validate and then
  delegate to methods a subclass overrides, a keyed container interface over the glyphs of
  the layer, and a number of declared operations whose bodies are docstrings only.

  Naming. An Isabelle name cannot begin with an underscore, so a method \<^verbatim>\<open>_m\<close> of the
  source is the constant \<open>u_m\<close> here, and a special method \<^verbatim>\<open>__m__\<close> is \<open>uu_m\<close>. The
  attribute \<^verbatim>\<open>_font\<close> is the record field \<open>u_font\<close>.
\<close>

subsection \<open>Exceptions and the type of a method\<close>

text \<open>
  The exceptions the module can raise. \<^verbatim>\<open>FontPartsError(fmt % arg)\<close> keeps the format
  string and its argument apart. \<open>AttributeError\<close> is what Python raises for
  \<^verbatim>\<open>None.layerOrder\<close>. \<open>ValidationError\<close> stands for what a validator raises on malformed
  input, \<open>KeyError\<close> for a failed dictionary lookup in the code of an environment.
\<close>

datatype error =
    AssertionError
  | NotImplementedError
  | AttributeError
  | ValidationError
  | KeyError
  | FontPartsError string string

text \<open>
  A method runs on the object \<^verbatim>\<open>self\<close> and either returns a value or raises; in both cases
  it leaves an object behind, so that what a failed call did to the object can be stated.
\<close>

type_synonym ('a, 's) py = "'s \<Rightarrow> (error + 'a) \<times> 's"

definition py_return :: "'a \<Rightarrow> ('a, 's) py" where
  "py_return x = (\<lambda>s. (Inr x, s))"

definition py_raise :: "error \<Rightarrow> ('a, 's) py" where
  "py_raise e = (\<lambda>s. (Inl e, s))"

definition py_bind :: "('a, 's) py \<Rightarrow> ('a \<Rightarrow> ('b, 's) py) \<Rightarrow> ('b, 's) py" where
  "py_bind m f = (\<lambda>s. case m s of (Inl e, s') \<Rightarrow> (Inl e, s') | (Inr x, s') \<Rightarrow> f x s')"

definition py_lift :: "error + 'a \<Rightarrow> ('a, 's) py" where
  "py_lift r = (\<lambda>s. (r, s))"

subsection \<open>Objects\<close>

text \<open>
  Modelled from the spec: the Font object, of which only \<^verbatim>\<open>layerOrder\<close> is used, "an
  ordered sequence of existing layer names". Fonts live in a heap, addressed by number; a
  font that has been destroyed is no longer in the heap.
\<close>

record font =
  layerOrder :: "string list"

type_synonym heap = "nat \<Rightarrow> font option"

text \<open>\<^verbatim>\<open>weakref.ref(font)\<close> holds the address of the font and does not keep it alive.\<close>

datatype weakref = WeakRef nat

text \<open>
  A layer object: the attribute \<^verbatim>\<open>_font\<close> of the base class (\<open>None\<close> is the class attribute
  \<^verbatim>\<open>_font = None\<close>), and whatever the subclass stores.
\<close>

record 'e layer =
  u_font :: "weakref option"
  env :: 'e

text \<open>
  Modelled from the spec: the Color value type, "wrapping validated color tuples". The
  tuple itself is never inspected by the layer, so its type is a parameter.
\<close>

datatype 'c color = Color 'c

text \<open>
  Modelled from the spec: the validators module, "performing input normalization/validation
  (name strings, color tuples, glyph names)"; a validator returns the validated value or
  raises. Their code is not part of the module, so they are parameters of every method that
  calls them.
\<close>

record 'c validators =
  validateLayerName :: "string \<Rightarrow> error + string"
  validateColor :: "'c \<Rightarrow> error + 'c"
  validateGlyphName :: "string \<Rightarrow> error + string"

text \<open>
  A subclass is the set of methods it overrides; \<open>None\<close> means the method of \<^verbatim>\<open>BaseLayer\<close>
  is inherited. \<open>'g\<close> is the type of wrapped glyphs, \<open>'l\<close> of lib objects.
\<close>

record ('e, 'g, 'c, 'l) layer_class =
  ov_get_name :: "(string option, 'e layer) py option"
  ov_set_name :: "(string option \<Rightarrow> (unit, 'e layer) py) option"
  ov_get_color :: "('c option, 'e layer) py option"
  ov_set_color :: "('c option \<Rightarrow> (unit, 'e layer) py) option"
  ov_get_lib :: "('l, 'e layer) py option"
  ov_len :: "(nat, 'e layer) py option"
  ov_getItem :: "(string \<Rightarrow> ('g, 'e layer) py) option"
  ov_keys :: "(string list, 'e layer) py option"
  ov_contains :: "(string \<Rightarrow> (bool, 'e layer) py) option"

text \<open>The bare base class: nothing is overridden.\<close>

definition BaseLayer :: "('e, 'g, 'c, 'l) layer_class" where
  "BaseLayer = \<lparr> ov_get_name = None, ov_set_name = None, ov_get_color = None,
     ov_set_color = None, ov_get_lib = None, ov_len = None, ov_getItem = None,
     ov_keys = None, ov_contains = None \<rparr>"

text \<open>
  Modelled from the spec: \<^verbatim>\<open>BaseObject.raiseNotImplementedError\<close>, the "not implemented"
  failure signal of the parent class.
\<close>

definition raiseNotImplementedError :: "('a, 's) py" where
  "raiseNotImplementedError = py_raise NotImplementedError"

subsection \<open>Parents\<close>

text \<open>
  \<^verbatim>\<open>
  def _get_font(self):
      if self._font is None:
          return None
      return self._font()
  \<close>
  Calling a weak reference gives the referent, or \<open>None\<close> once it is gone.
\<close>

definition u_get_font :: "heap \<Rightarrow> (font option, 'e layer) py" where
  "u_get_font h = (\<lambda>self.
     (case u_font self of
        None \<Rightarrow> py_return None
      | Some (WeakRef a) \<Rightarrow> py_return (h a)) self)"

text \<open>
  \<^verbatim>\<open>
  def _set_font(self, font):
      assert self._font is None
      if font is not None:
          font = weakref.ref(font)
      self._font = font
  \<close>
  The argument is a reference to a font (its address) or \<open>None\<close>.
\<close>

definition u_set_font :: "nat option \<Rightarrow> (unit, 'e layer) py" where
  "u_set_font font = (\<lambda>self.
     if u_font self \<noteq> None then py_raise AssertionError self
     else
       (let font' = (case font of None \<Rightarrow> None | Some a \<Rightarrow> Some (WeakRef a))
        in (Inr (), self\<lparr>u_font := font'\<rparr>)))"

text \<open>\<^verbatim>\<open>getParent\<close> returns \<^verbatim>\<open>self.font\<close>; the property \<^verbatim>\<open>font\<close> reads through \<^verbatim>\<open>_get_font\<close>.\<close>

definition getParent :: "heap \<Rightarrow> (font option, 'e layer) py" where
  "getParent h = u_get_font h"

subsection \<open>Identification\<close>

text \<open>
  The methods a subclass must override call \<^verbatim>\<open>self.raiseNotImplementedError()\<close> in the
  base class; a call goes to the override when there is one.
  \<^verbatim>\<open>
  def _get_name(self):             self.raiseNotImplementedError()
  def _set_name(self, value, **kwargs):   self.raiseNotImplementedError()
  \<close>
\<close>

definition u_get_name :: "('e, 'g, 'c, 'l) layer_class \<Rightarrow> (string option, 'e layer) py" where
  "u_get_name C = (case ov_get_name C of None \<Rightarrow> raiseNotImplementedError | Some f \<Rightarrow> f)"

definition u_set_name ::
  "('e, 'g, 'c, 'l) layer_class \<Rightarrow> string option \<Rightarrow> (unit, 'e layer) py" where
  "u_set_name C value =
     (case ov_set_name C of None \<Rightarrow> raiseNotImplementedError | Some f \<Rightarrow> f value)"

text \<open>
  \<^verbatim>\<open>
  def _get_base_name(self):
      value = self._get_name()
      if value is not None:
          value = validators.validateLayerName(value)
      return value
  \<close>
\<close>

definition u_get_base_name ::
  "('e, 'g, 'c, 'l) layer_class \<Rightarrow> 'c validators \<Rightarrow> (string option, 'e layer) py" where
  "u_get_base_name C V =
     py_bind (u_get_name C) (\<lambda>value.
       case value of
         None \<Rightarrow> py_return None
       | Some v \<Rightarrow> py_bind (py_lift (validateLayerName V v)) (\<lambda>v'. py_return (Some v')))"

text \<open>
  Modelled from the spec: \<^verbatim>\<open>dynamicProperty\<close> of the parent module, the "generic
  property-declaration mechanism": \<^verbatim>\<open>name = dynamicProperty("base_name", ...)\<close> makes
  reading \<^verbatim>\<open>self.name\<close> a call of \<^verbatim>\<open>self._get_base_name()\<close> and assigning to it a call of
  \<^verbatim>\<open>self._set_base_name(value)\<close>; likewise \<^verbatim>\<open>font\<close>, \<^verbatim>\<open>color\<close> (as \<^verbatim>\<open>base_color\<close>) and
  \<^verbatim>\<open>lib\<close>.

  \<^verbatim>\<open>
  def _set_base_name(self, value):
      if value == self.name:
          return
      if value is not None:
          value = validators.validateLayerName(value)
          existing = self.font.layerOrder
          if value in existing:
              raise FontPartsError("A layer with the name %r already exists." % value)
      self._set_name(value)
  \<close>
  \<^verbatim>\<open>self.font\<close> is \<open>None\<close> for a layer without a (living) font, and \<^verbatim>\<open>None.layerOrder\<close> is
  an \<open>AttributeError\<close>.
\<close>

definition u_set_base_name ::
  "('e, 'g, 'c, 'l) layer_class \<Rightarrow> 'c validators \<Rightarrow> heap \<Rightarrow> string option
     \<Rightarrow> (unit, 'e layer) py" where
  "u_set_base_name C V h value =
     py_bind (u_get_base_name C V) (\<lambda>current.
       if value = current then py_return ()
       else
         py_bind
           (case value of
              None \<Rightarrow> py_return None
            | Some v \<Rightarrow>
                py_bind (py_lift (validateLayerName V v)) (\<lambda>v'.
                py_bind (u_get_font h) (\<lambda>fnt.
                py_bind (case fnt of
                           None \<Rightarrow> py_raise AttributeError
                         | Some F \<Rightarrow> py_return (layerOrder F)) (\<lambda>existing.
                if v' \<in> set existing
                then py_raise (FontPartsError ''A layer with the name %r already exists.'' v')
                else py_return (Some v')))))
           (\<lambda>value'. u_set_name C value'))"

text \<open>
  \<^verbatim>\<open>
  def _get_color(self):                   self.raiseNotImplementedError()
  def _set_color(self, value, **kwargs):  self.raiseNotImplementedError()
  \<close>
\<close>

definition u_get_color :: "('e, 'g, 'c, 'l) layer_class \<Rightarrow> ('c option, 'e layer) py" where
  "u_get_color C = (case ov_get_color C of None \<Rightarrow> raiseNotImplementedError | Some f \<Rightarrow> f)"

definition u_set_color ::
  "('e, 'g, 'c, 'l) layer_class \<Rightarrow> 'c option \<Rightarrow> (unit, 'e layer) py" where
  "u_set_color C value =
     (case ov_set_color C of None \<Rightarrow> raiseNotImplementedError | Some f \<Rightarrow> f value)"

text \<open>
  \<^verbatim>\<open>
  def _get_base_color(self):
      value = self._get_color()
      if value is not None:
          value = validators.validateColor(value)
          value = Color(value)
      return value

  def _set_base_color(self, value):
      if value is not None:
          value = validators.validateColor(value)
      self._set_color(value)
  \<close>
\<close>

definition u_get_base_color ::
  "('e, 'g, 'c, 'l) layer_class \<Rightarrow> 'c validators \<Rightarrow> ('c color option, 'e layer) py" where
  "u_get_base_color C V =
     py_bind (u_get_color C) (\<lambda>value.
       case value of
         None \<Rightarrow> py_return None
       | Some v \<Rightarrow> py_bind (py_lift (validateColor V v)) (\<lambda>v'. py_return (Some (Color v'))))"

definition u_set_base_color ::
  "('e, 'g, 'c, 'l) layer_class \<Rightarrow> 'c validators \<Rightarrow> 'c option \<Rightarrow> (unit, 'e layer) py" where
  "u_set_base_color C V value =
     py_bind
       (case value of
          None \<Rightarrow> py_return None
        | Some v \<Rightarrow> py_bind (py_lift (validateColor V v)) (\<lambda>v'. py_return (Some v')))
       (\<lambda>value'. u_set_color C value')"

subsection \<open>Sub-objects\<close>

text \<open>\<^verbatim>\<open>def _get_lib(self):  self.raiseNotImplementedError()\<close>\<close>

definition u_get_lib :: "('e, 'g, 'c, 'l) layer_class \<Rightarrow> ('l, 'e layer) py" where
  "u_get_lib C = (case ov_get_lib C of None \<Rightarrow> raiseNotImplementedError | Some f \<Rightarrow> f)"

subsection \<open>Glyph interaction\<close>

text \<open>
  \<^verbatim>\<open>
  def keys(self):            return self._keys()
  def _keys(self, **kwargs): self.raiseNotImplementedError()
  \<close>
\<close>

definition u_keys :: "('e, 'g, 'c, 'l) layer_class \<Rightarrow> (string list, 'e layer) py" where
  "u_keys C = (case ov_keys C of None \<Rightarrow> raiseNotImplementedError | Some f \<Rightarrow> f)"

definition keys :: "('e, 'g, 'c, 'l) layer_class \<Rightarrow> (string list, 'e layer) py" where
  "keys C = u_keys C"

text \<open>
  \<^verbatim>\<open>
  def __len__(self):         return self._len()
  def _len(self, **kwargs):  return len(self.keys())     # subclasses may override
  \<close>
\<close>

definition u_len :: "('e, 'g, 'c, 'l) layer_class \<Rightarrow> (nat, 'e layer) py" where
  "u_len C =
     (case ov_len C of
        None \<Rightarrow> py_bind (keys C) (\<lambda>ks. py_return (length ks))
      | Some f \<Rightarrow> f)"

definition uu_len :: "('e, 'g, 'c, 'l) layer_class \<Rightarrow> (nat, 'e layer) py" where
  "uu_len C = u_len C"

text \<open>
  \<^verbatim>\<open>
  def __contains__(self, name):
      name = validators.validateGlyphName(name)
      return self._contains(name)
  def _contains(self, name, **kwargs):
      return name in self.keys()                         # subclasses may override
  has_key = __contains__
  \<close>
\<close>

definition u_contains :: "('e, 'g, 'c, 'l) layer_class \<Rightarrow> string \<Rightarrow> (bool, 'e layer) py" where
  "u_contains C name =
     (case ov_contains C of
        None \<Rightarrow> py_bind (keys C) (\<lambda>ks. py_return (name \<in> set ks))
      | Some f \<Rightarrow> f name)"

definition uu_contains ::
  "('e, 'g, 'c, 'l) layer_class \<Rightarrow> 'c validators \<Rightarrow> string \<Rightarrow> (bool, 'e layer) py" where
  "uu_contains C V name =
     py_bind (py_lift (validateGlyphName V name)) (\<lambda>name'. u_contains C name')"

definition has_key ::
  "('e, 'g, 'c, 'l) layer_class \<Rightarrow> 'c validators \<Rightarrow> string \<Rightarrow> (bool, 'e layer) py" where
  "has_key = uu_contains"

text \<open>
  \<^verbatim>\<open>
  def __getitem__(self, name):
      name = validators.validateGlyphName(name)
      if name not in self:
          raise FontPartsError("No glyph named %r." % name)
      return self._getItem(name)
  def _getItem(self, name, **kwargs):
      self.raiseNotImplementedError()
  \<close>
  \<^verbatim>\<open>name not in self\<close> calls \<^verbatim>\<open>self.__contains__(name)\<close>, which validates once more.
\<close>

definition u_getItem :: "('e, 'g, 'c, 'l) layer_class \<Rightarrow> string \<Rightarrow> ('g, 'e layer) py" where
  "u_getItem C name =
     (case ov_getItem C of None \<Rightarrow> raiseNotImplementedError | Some f \<Rightarrow> f name)"

definition uu_getitem ::
  "('e, 'g, 'c, 'l) layer_class \<Rightarrow> 'c validators \<Rightarrow> string \<Rightarrow> ('g, 'e layer) py" where
  "uu_getitem C V name =
     py_bind (py_lift (validateGlyphName V name)) (\<lambda>name'.
     py_bind (uu_contains C V name') (\<lambda>present.
       if \<not> present then py_raise (FontPartsError ''No glyph named %r.'' name')
       else u_getItem C name'))"

text \<open>
  The spec's \<open>NotFoundError\<close> is the \<^verbatim>\<open>FontPartsError\<close> of \<^verbatim>\<open>__getitem__\<close>, recognised by its
  message.
\<close>

definition is_NotFoundError :: "error + 'a \<Rightarrow> bool" where
  "is_NotFoundError r =
     (case r of Inl (FontPartsError fmt arg) \<Rightarrow> fmt = ''No glyph named %r.'' | _ \<Rightarrow> False)"

text \<open>
  \<^verbatim>\<open>
  def __iter__(self):  return self._iter()
  def _iter(self, **kwargs):
      names = self.keys()
      while names:
          name = names[0]
          yield self[name]
          names = names[1:]
  \<close>
  \<^verbatim>\<open>_iter\<close> is a generator function. Calling it runs none of its body and gives a generator
  in the state \<open>Created\<close>. Each \<^verbatim>\<open>next\<close> runs the body up to the next \<^verbatim>\<open>yield\<close>, where the
  generator is suspended with its local \<^verbatim>\<open>names\<close>, or to the end of the body. The layer is
  an argument of every step, so that the caller may have changed it in between. A step
  returns the glyph yielded (\<open>None\<close> when the body has ended, Python's \<^verbatim>\<open>StopIteration\<close>)
  and the generator's next state; a generator whose step raised is finished.
\<close>

datatype generator = Created | Suspended "string list" | Finished

definition u_iter :: generator where
  "u_iter = Created"

definition uu_iter :: generator where
  "uu_iter = u_iter"

text \<open>The loop from its test \<^verbatim>\<open>while names:\<close> to the \<^verbatim>\<open>yield\<close>.\<close>

definition iter_loop ::
  "('e, 'g, 'c, 'l) layer_class \<Rightarrow> 'c validators \<Rightarrow> string list
     \<Rightarrow> ('g option \<times> generator, 'e layer) py" where
  "iter_loop C V names =
     (case names of
        [] \<Rightarrow> py_return (None, Finished)
      | name # _ \<Rightarrow>
          py_bind (uu_getitem C V name) (\<lambda>glyph. py_return (Some glyph, Suspended names)))"

definition iter_next ::
  "('e, 'g, 'c, 'l) layer_class \<Rightarrow> 'c validators \<Rightarrow> generator
     \<Rightarrow> ('g option \<times> generator, 'e layer) py" where
  "iter_next C V gen =
     (case gen of
        Created \<Rightarrow> py_bind (keys C) (\<lambda>names. iter_loop C V names)
      | Suspended names \<Rightarrow> iter_loop C V (tl names)
      | Finished \<Rightarrow> py_return (None, Finished))"

text \<open>
  \<^verbatim>\<open>[glyph for glyph in layer]\<close>: the generator driven to its end, with nothing changing the
  layer between the steps but the steps themselves.
\<close>

function iter_collect ::
  "('e, 'g, 'c, 'l) layer_class \<Rightarrow> 'c validators \<Rightarrow> generator \<Rightarrow> ('g list, 'e layer) py" where
  "iter_collect C V gen self =
     (case iter_next C V gen self of
        (Inl e, self') \<Rightarrow> (Inl e, self')
      | (Inr (None, gen'), self') \<Rightarrow> (Inr [], self')
      | (Inr (Some glyph, gen'), self') \<Rightarrow>
          (case iter_collect C V gen' self' of
             (Inl e, self'') \<Rightarrow> (Inl e, self'')
           | (Inr glyphs, self'') \<Rightarrow> (Inr (glyph # glyphs), self'')))"
  by pat_completeness auto

termination iter_collect
proof (relation "measures [\<lambda>(C, V, gen, self). (case gen of Created \<Rightarrow> 1 | _ \<Rightarrow> 0),
                           \<lambda>(C, V, gen, self). (case gen of Suspended ns \<Rightarrow> length ns | _ \<Rightarrow> 0)]",
       goal_cases)
  case 1
  show ?case by simp
next
  case (2 C V gen self r self' p y gen' glyph)
  then have step: "iter_next C V gen self = (Inr (Some glyph, gen'), self')"
    by simp
  show ?case
  proof (cases gen)
    case Created
    with step show ?thesis
      by (auto simp: iter_next_def iter_loop_def py_bind_def py_return_def
               split: list.splits prod.splits sum.splits)
  next
    case (Suspended ns)
    with step show ?thesis
      by (cases ns) (auto simp: iter_next_def iter_loop_def py_bind_def py_return_def
               split: list.splits prod.splits sum.splits)
  next
    case Finished
    with step show ?thesis
      by (simp add: iter_next_def py_return_def)
  qed
qed


declare iter_collect.simps [simp del]

text \<open>Running a method on each element of a list in turn, up to the first that raises.\<close>

fun py_mapM :: "('a \<Rightarrow> ('b, 's) py) \<Rightarrow> 'a list \<Rightarrow> ('b list, 's) py" where
  "py_mapM f [] = py_return []"
| "py_mapM f (x # xs) =
     py_bind (f x) (\<lambda>y. py_bind (py_mapM f xs) (\<lambda>ys. py_return (y # ys)))"

text \<open>
  The step of the iteration as the specification describes it, for comparison with
  \<open>iter_next\<close>: "repeatedly takes the first remaining name from a freshly fetched key
  list", re-fetching "the key list on every step rather than snapshotting once". What the
  iteration carries from step to step is then the names already yielded.
\<close>

definition refetch_next ::
  "('e, 'g, 'c, 'l) layer_class \<Rightarrow> 'c validators \<Rightarrow> string list
     \<Rightarrow> ('g option \<times> string list, 'e layer) py" where
  "refetch_next C V yielded =
     py_bind (keys C) (\<lambda>fresh.
       case filter (\<lambda>n. n \<notin> set yielded) fresh of
         [] \<Rightarrow> py_return (None, yielded)
       | name # _ \<Rightarrow>
           py_bind (uu_getitem C V name) (\<lambda>glyph. py_return (Some glyph, yielded @ [name])))"

text \<open>
  The operations below are declared with a docstring as their whole body, so a call
  returns \<open>None\<close>.
  \<^verbatim>\<open>
  def newGlyph(self, name, clear=True):
  def removeGlyph(self, name):
  def insertGlyph(self, glyph, name=None):
  def round(self):
  def autoUnicodes(self):
  def interpolate(self, factor, minLayer, maxLayer, suppressError=True,
                  analyzeOnly=False, showProgress=False):
  def getCharacterMapping(self):
  def getReverseComponentMapping(self):
  \<close>
\<close>

definition newGlyph :: "string \<Rightarrow> bool \<Rightarrow> ('r option, 'e layer) py" where
  "newGlyph name clear = py_return None"

definition removeGlyph :: "string \<Rightarrow> ('r option, 'e layer) py" where
  "removeGlyph name = py_return None"

definition insertGlyph :: "'g \<Rightarrow> string option \<Rightarrow> ('r option, 'e layer) py" where
  "insertGlyph glyph name = py_return None"

definition round_layer :: "('r option, 'e layer) py" where
  "round_layer = py_return None"

definition autoUnicodes :: "('r option, 'e layer) py" where
  "autoUnicodes = py_return None"

definition interpolate ::
  "'f \<Rightarrow> 'e layer \<Rightarrow> 'e layer \<Rightarrow> bool \<Rightarrow> bool \<Rightarrow> bool \<Rightarrow> ('r option, 'e layer) py" where
  "interpolate factor minLayer maxLayer suppressError analyzeOnly showProgress =
     py_return None"

definition getCharacterMapping :: "('r option, 'e layer) py" where
  "getCharacterMapping = py_return None"

definition getReverseComponentMapping :: "('r option, 'e layer) py" where
  "getReverseComponentMapping = py_return None"

subsection \<open>An environment, for concrete instances\<close>

text \<open>
  A small subclass that keeps the name, the color, the lib and a table of glyphs (numbers
  stand for the glyph objects) in the object, and overrides the seven methods that must
  be overridden; \<^verbatim>\<open>_len\<close> and \<^verbatim>\<open>_contains\<close> are inherited.
\<close>

record ex_env =
  ex_name :: "string option"
  ex_color :: "int list option"
  ex_lib :: "(string \<times> string) list"
  ex_glyphs :: "(string \<times> nat) list"

definition ExLayer :: "(ex_env, nat, int list, (string \<times> string) list) layer_class" where
  "ExLayer = \<lparr>
     ov_get_name = Some (\<lambda>self. (Inr (ex_name (env self)), self)),
     ov_set_name = Some (\<lambda>value self. (Inr (), self\<lparr>env := (env self)\<lparr>ex_name := value\<rparr>\<rparr>)),
     ov_get_color = Some (\<lambda>self. (Inr (ex_color (env self)), self)),
     ov_set_color = Some (\<lambda>value self. (Inr (), self\<lparr>env := (env self)\<lparr>ex_color := value\<rparr>\<rparr>)),
     ov_get_lib = Some (\<lambda>self. (Inr (ex_lib (env self)), self)),
     ov_len = None,
     ov_getItem = Some (\<lambda>name self.
        case map_of (ex_glyphs (env self)) name of
          None \<Rightarrow> (Inl KeyError, self)
        | Some glyph \<Rightarrow> (Inr glyph, self)),
     ov_keys = Some (\<lambda>self. (Inr (map fst (ex_glyphs (env self))), self)),
     ov_contains = None \<rparr>"

text \<open>
  Modelled from the spec: validators for the instances. A layer name and a glyph name are
  well-formed when not empty; a color is "a normalized 4-tuple", four components between 0
  and 1. Malformed input fails "with a \<^verbatim>\<open>ValidationError\<close>".
\<close>

definition ex_validators :: "int list validators" where
  "ex_validators = \<lparr>
     validateLayerName = (\<lambda>v. if v = [] then Inl ValidationError else Inr v),
     validateColor = (\<lambda>v. if length v = 4 \<and> list_all (\<lambda>x. 0 \<le> x \<and> x \<le> 1) v
                            then Inr v else Inl ValidationError),
     validateGlyphName = (\<lambda>v. if v = [] then Inl ValidationError else Inr v) \<rparr>"

text \<open>A font at address 1 with two layers, and a third layer of it holding two glyphs.\<close>

definition ex_heap :: heap where
  "ex_heap = (\<lambda>a. if a = 1 then Some \<lparr>layerOrder = [''foreground'', ''background'']\<rparr>
                   else None)"

definition ex_layer :: "ex_env layer" where
  "ex_layer = \<lparr> u_font = Some (WeakRef 1),
     env = \<lparr> ex_name = Some ''sketches'', ex_color = None, ex_lib = [],
             ex_glyphs = [(''a'', 10), (''b'', 11)] \<rparr> \<rparr>"

text \<open>The same layer after glyph \<open>b\<close> was removed and glyph \<open>c\<close> added.\<close>

definition ex_layer_changed :: "ex_env layer" where
  "ex_layer_changed = \<lparr> u_font = Some (WeakRef 1),
     env = \<lparr> ex_name = Some ''sketches'', ex_color = None, ex_lib = [],
             ex_glyphs = [(''a'', 10), (''c'', 12)] \<rparr> \<rparr>"

text \<open>A layer object that was never attached to a font.\<close>

definition ex_detached :: "ex_env layer" where
  "ex_detached = \<lparr> u_font = None,
     env = \<lparr> ex_name = None, ex_color = None, ex_lib = [], ex_glyphs = [] \<rparr> \<rparr>"

text \<open>The same subclass with \<^verbatim>\<open>_contains\<close> overridden by a lookup in its own table.\<close>

definition ExLayerFast :: "(ex_env, nat, int list, (string \<times> string) list) layer_class" where
  "ExLayerFast = ExLayer\<lparr> ov_contains :=
     Some (\<lambda>name self. (Inr (map_of (ex_glyphs (env self)) name \<noteq> None), self)) \<rparr>"

text \<open>The bare base class at the types of this environment.\<close>

definition ex_bare :: "(ex_env, nat, int list, (string \<times> string) list) layer_class" where
  "ex_bare = BaseLayer"

section \<open>Evaluation of the method combinators\<close>

lemmas py_defs = py_return_def py_raise_def py_bind_def py_lift_def raiseNotImplementedError_def

section \<open>The font back-reference\<close>

lemma u_set_font_unset:
  "u_font self = None \<Longrightarrow>
   u_set_font font self = (Inr (), self\<lparr>u_font := map_option WeakRef font\<rparr>)"
  by (cases font) (simp_all add: u_set_font_def)

lemma u_set_font_already:
  "u_font self \<noteq> None \<Longrightarrow> u_set_font font self = (Inl AssertionError, self)"
  by (simp add: u_set_font_def py_raise_def)

text \<open>
  C1. On a layer whose font is unset, setting a font (a non-null reference \<open>a\<close>) succeeds
  and stores a weak reference to it. On the layer that results, every further attempt to
  set the font, with any argument \<open>x\<close> (the same font, another font, or \<open>None\<close>), fails on the
  assertion (the spec's invariant violation), and the object after the failed attempt is the
  object before it, so the stored reference is unchanged and the next attempt fails in the
  same way. Whether the font is still alive plays no part.
\<close>

theorem set_font_once:
  assumes "u_font self = None"
  shows "u_set_font (Some a) self = (Inr (), self\<lparr>u_font := Some (WeakRef a)\<rparr>)
       \<and> (\<forall>x. u_set_font x (self\<lparr>u_font := Some (WeakRef a)\<rparr>)
                = (Inl AssertionError, self\<lparr>u_font := Some (WeakRef a)\<rparr>))"
  using assms by (simp add: u_set_font_unset u_set_font_already)

theorem set_font_once_witness:
  "u_font ex_detached = None
   \<and> u_set_font (Some 1) ex_detached = (Inr (), ex_detached\<lparr>u_font := Some (WeakRef 1)\<rparr>)
   \<and> u_set_font (Some 1) (ex_detached\<lparr>u_font := Some (WeakRef 1)\<rparr>)
        = (Inl AssertionError, ex_detached\<lparr>u_font := Some (WeakRef 1)\<rparr>)
   \<and> u_set_font None (ex_detached\<lparr>u_font := Some (WeakRef 1)\<rparr>)
        = (Inl AssertionError, ex_detached\<lparr>u_font := Some (WeakRef 1)\<rparr>)"
  using set_font_once [of ex_detached 1] by (simp add: ex_detached_def)

text \<open>
  C10. On a layer whose font is unset, setting the font to \<open>None\<close> succeeds and leaves the
  object as it was: the back-reference is still unset and reading the font gives \<open>None\<close>.
  The assertion has not been used up: on the object the null set leaves, setting a
  concrete font \<open>a\<close> succeeds and stores the weak reference, through which the font is
  read.
\<close>

theorem set_font_None_keeps_unset:
  assumes "u_font self = None"
  shows "u_set_font None self = (Inr (), self)
       \<and> u_get_font h self = (Inr None, self)
       \<and> u_set_font (Some a) (snd (u_set_font None self))
            = (Inr (), self\<lparr>u_font := Some (WeakRef a)\<rparr>)
       \<and> u_get_font h (self\<lparr>u_font := Some (WeakRef a)\<rparr>)
            = (Inr (h a), self\<lparr>u_font := Some (WeakRef a)\<rparr>)"
  using assms by (simp add: u_set_font_unset u_get_font_def py_return_def)

theorem set_font_None_keeps_unset_witness:
  "u_font ex_detached = None
   \<and> u_set_font None ex_detached = (Inr (), ex_detached)
   \<and> u_get_font ex_heap ex_detached = (Inr None, ex_detached)
   \<and> u_set_font (Some 1) (snd (u_set_font None ex_detached))
        = (Inr (), ex_detached\<lparr>u_font := Some (WeakRef 1)\<rparr>)
   \<and> fst (u_get_font ex_heap (ex_detached\<lparr>u_font := Some (WeakRef 1)\<rparr>))
        = Inr (Some \<lparr>layerOrder = [''foreground'', ''background'']\<rparr>)"
  using set_font_None_keeps_unset [of ex_detached ex_heap 1]
  by (auto simp: ex_detached_def ex_heap_def)

section \<open>The name\<close>

lemma u_get_base_name_set_hook [simp]:
  "u_get_base_name (C\<lparr>ov_set_name := hook\<rparr>) V = u_get_base_name C V"
  by (simp add: u_get_base_name_def u_get_name_def)

text \<open>
  C2. Let reading the name of the layer give \<open>current\<close> and leave the object as it is, let
  the layer be attached to a living font \<open>F\<close>, and let \<open>v\<close> be a layer name that differs
  from the current one, that the validator accepts (as \<open>v'\<close>, which is \<open>v\<close> itself unless
  the validator normalises) and that is in \<open>layerOrder\<close> of the font. Then setting the name
  to \<open>v\<close> raises the \<^verbatim>\<open>FontPartsError\<close> "A layer with the name ... already exists" (the
  spec's \<open>DuplicateNameError\<close>) and the object afterwards is the object before, so the
  stored name is unchanged. The outcome is the same whatever \<^verbatim>\<open>_set_name\<close> is, also one
  that would raise or change the object: it is not called.
\<close>

theorem set_name_duplicate:
  assumes cur: "u_get_base_name C V self = (Inr current, self)"
    and diff: "Some v \<noteq> current"
    and valid: "validateLayerName V v = Inr v'"
    and attached: "u_get_font h self = (Inr (Some F), self)"
    and dup: "v' \<in> set (layerOrder F)"
  shows "u_set_base_name (C\<lparr>ov_set_name := hook\<rparr>) V h (Some v) self
           = (Inl (FontPartsError ''A layer with the name %r already exists.'' v'), self)"
  using assms by (simp add: u_set_base_name_def py_defs)

theorem set_name_duplicate_witness:
  "u_get_base_name ExLayer ex_validators ex_layer = (Inr (Some ''sketches''), ex_layer)
   \<and> Some ''foreground'' \<noteq> Some ''sketches''
   \<and> validateLayerName ex_validators ''foreground'' = Inr ''foreground''
   \<and> u_get_font ex_heap ex_layer
        = (Inr (Some \<lparr>layerOrder = [''foreground'', ''background'']\<rparr>), ex_layer)
   \<and> ''foreground'' \<in> set (layerOrder \<lparr>layerOrder = [''foreground'', ''background'']\<rparr>)
   \<and> u_set_base_name ExLayer ex_validators ex_heap (Some ''foreground'') ex_layer
        = (Inl (FontPartsError ''A layer with the name %r already exists.'' ''foreground''),
           ex_layer)"
proof -
  have cur: "u_get_base_name ExLayer ex_validators ex_layer
               = (Inr (Some ''sketches''), ex_layer)"
    by (simp add: u_get_base_name_def u_get_name_def ExLayer_def ex_validators_def
          ex_layer_def py_defs)
  have diff: "Some ''foreground'' \<noteq> Some ''sketches''" by simp
  have valid: "validateLayerName ex_validators ''foreground'' = Inr ''foreground''"
    by (simp add: ex_validators_def)
  have attached: "u_get_font ex_heap ex_layer
        = (Inr (Some \<lparr>layerOrder = [''foreground'', ''background'']\<rparr>), ex_layer)"
    by (simp add: u_get_font_def ex_heap_def ex_layer_def py_defs)
  have dup: "''foreground'' \<in> set (layerOrder \<lparr>layerOrder = [''foreground'', ''background'']\<rparr>)"
    by simp
  have same: "ExLayer\<lparr>ov_set_name := ov_set_name ExLayer\<rparr> = ExLayer" by simp
  from set_name_duplicate [OF cur diff valid attached dup, of "ov_set_name ExLayer"]
  have "u_set_base_name ExLayer ex_validators ex_heap (Some ''foreground'') ex_layer
        = (Inl (FontPartsError ''A layer with the name %r already exists.'' ''foreground''),
           ex_layer)"
    by (simp only: same)
  with cur diff valid attached dup show ?thesis by blast
qed

text \<open>
  C3. When reading the name succeeds with \<open>current\<close> (leaving the object \<open>self'\<close>, which is
  \<open>self\<close> for a reader without side effects), setting the name to that value returns at
  once: no error, and the object is as the read left it. Nothing is assumed of the
  validator on the new value, of the heap \<open>h\<close> (the layer may have no font at all), of
  \<open>layerOrder\<close>, or of \<^verbatim>\<open>_set_name\<close> (any \<open>hook\<close>, implemented or not): none of them is
  consulted.
\<close>

theorem set_name_same_noop:
  assumes "u_get_base_name C V self = (Inr current, self')"
  shows "u_set_base_name (C\<lparr>ov_set_name := hook\<rparr>) V h current self = (Inr (), self')"
  using assms by (simp add: u_set_base_name_def py_defs)

theorem set_name_same_noop_witness:
  "u_get_base_name ExLayer ex_validators ex_layer = (Inr (Some ''sketches''), ex_layer)
   \<and> u_set_base_name ExLayer ex_validators ex_heap (Some ''sketches'') ex_layer
        = (Inr (), ex_layer)"
proof -
  have cur: "u_get_base_name ExLayer ex_validators ex_layer
               = (Inr (Some ''sketches''), ex_layer)"
    by (simp add: u_get_base_name_def u_get_name_def ExLayer_def ex_validators_def
          ex_layer_def py_defs)
  have same: "ExLayer\<lparr>ov_set_name := ov_set_name ExLayer\<rparr> = ExLayer" by simp
  from set_name_same_noop [OF cur, of "ov_set_name ExLayer" ex_heap]
  have "u_set_base_name ExLayer ex_validators ex_heap (Some ''sketches'') ex_layer
        = (Inr (), ex_layer)"
    by (simp only: same)
  with cur show ?thesis by blast
qed

section \<open>The color\<close>

text \<open>
  C7. Let the color hooks store and return values unchanged: \<^verbatim>\<open>_set_color\<close> with a value
  succeeds and \<^verbatim>\<open>_get_color\<close> on the resulting object returns that value. Let \<open>v\<close> be a
  valid color tuple, validated to \<open>v'\<close>, and let the validator accept its own result
  unchanged (the getter validates the stored tuple again). Then setting the color to \<open>v\<close>
  and reading it returns \<open>Color v'\<close>, the wrapped result of validating \<open>v\<close>; setting the
  color to \<open>None\<close> and reading it returns \<open>None\<close>.
\<close>

theorem color_set_then_get:
  assumes valid: "validateColor V v = Inr v'"
    and again: "validateColor V v' = Inr v'"
    and store: "u_set_color C (Some v') self = (Inr (), s1)"
    and fetch: "u_get_color C s1 = (Inr (Some v'), s1)"
    and store_None: "u_set_color C None self = (Inr (), s0)"
    and fetch_None: "u_get_color C s0 = (Inr None, s0)"
  shows "u_set_base_color C V (Some v) self = (Inr (), s1)
       \<and> u_get_base_color C V s1 = (Inr (Some (Color v')), s1)
       \<and> u_set_base_color C V None self = (Inr (), s0)
       \<and> u_get_base_color C V s0 = (Inr None, s0)"
  using assms by (simp add: u_set_base_color_def u_get_base_color_def py_defs)

theorem color_set_then_get_witness:
  "validateColor ex_validators [1, 0, 0, 1] = Inr [1, 0, 0, 1]
   \<and> u_set_base_color ExLayer ex_validators (Some [1, 0, 0, 1]) ex_layer
        = (Inr (), ex_layer\<lparr>env := (env ex_layer)\<lparr>ex_color := Some [1, 0, 0, 1]\<rparr>\<rparr>)
   \<and> u_get_base_color ExLayer ex_validators
          (ex_layer\<lparr>env := (env ex_layer)\<lparr>ex_color := Some [1, 0, 0, 1]\<rparr>\<rparr>)
        = (Inr (Some (Color [1, 0, 0, 1])),
           ex_layer\<lparr>env := (env ex_layer)\<lparr>ex_color := Some [1, 0, 0, 1]\<rparr>\<rparr>)
   \<and> u_set_base_color ExLayer ex_validators None ex_layer = (Inr (), ex_layer)
   \<and> u_get_base_color ExLayer ex_validators ex_layer = (Inr None, ex_layer)"
proof -
  let ?s1 = "ex_layer\<lparr>env := (env ex_layer)\<lparr>ex_color := Some [1, 0, 0, 1]\<rparr>\<rparr>"
  have valid: "validateColor ex_validators [1, 0, 0, 1] = Inr [1, 0, 0, 1]"
    by (simp add: ex_validators_def)
  have store: "u_set_color ExLayer (Some [1, 0, 0, 1]) ex_layer = (Inr (), ?s1)"
    by (simp add: u_set_color_def ExLayer_def)
  have fetch: "u_get_color ExLayer ?s1 = (Inr (Some [1, 0, 0, 1]), ?s1)"
    by (simp add: u_get_color_def ExLayer_def)
  have store_None: "u_set_color ExLayer None ex_layer = (Inr (), ex_layer)"
    by (simp add: u_set_color_def ExLayer_def ex_layer_def)
  have fetch_None: "u_get_color ExLayer ex_layer = (Inr None, ex_layer)"
    by (simp add: u_get_color_def ExLayer_def ex_layer_def)
  from color_set_then_get [OF valid valid store fetch store_None fetch_None] valid
  show ?thesis by blast
qed

section \<open>Declared operations\<close>

text \<open>
  C9. On the base class the declared glyph-mutating and global operations
  (\<^verbatim>\<open>newGlyph\<close>, \<^verbatim>\<open>removeGlyph\<close>, \<^verbatim>\<open>insertGlyph\<close>, \<^verbatim>\<open>round\<close>, \<^verbatim>\<open>autoUnicodes\<close>,
  \<^verbatim>\<open>interpolate\<close>, \<^verbatim>\<open>getCharacterMapping\<close>, \<^verbatim>\<open>getReverseComponentMapping\<close>) raise nothing:
  each returns \<open>None\<close> and leaves the layer object as it was, for all arguments.
\<close>

theorem declared_operations_return_None:
  "newGlyph name clear self = (Inr None, self)
   \<and> removeGlyph name self = (Inr None, self)
   \<and> insertGlyph glyph name_opt self = (Inr None, self)
   \<and> round_layer self = (Inr None, self)
   \<and> autoUnicodes self = (Inr None, self)
   \<and> interpolate factor minLayer maxLayer suppressError analyzeOnly showProgress self
        = (Inr None, self)
   \<and> getCharacterMapping self = (Inr None, self)
   \<and> getReverseComponentMapping self = (Inr None, self)"
  by (simp add: newGlyph_def removeGlyph_def insertGlyph_def round_layer_def
        autoUnicodes_def interpolate_def getCharacterMapping_def
        getReverseComponentMapping_def py_return_def)


section \<open>Membership and lookup\<close>

lemma uu_contains_default:
  assumes "ov_contains C = None" and "keys C self = (Inr ks, self)"
    and "validateGlyphName V name = Inr name'"
  shows "uu_contains C V name self = (Inr (name' \<in> set ks), self)"
  using assms by (simp add: uu_contains_def u_contains_def py_defs)

lemma uu_getitem_absent:
  assumes "validateGlyphName V name = Inr name'"
    and "uu_contains C V name' self = (Inr False, self')"
  shows "uu_getitem C V name self = (Inl (FontPartsError ''No glyph named %r.'' name'), self')"
  using assms by (simp add: uu_getitem_def py_defs)

lemma uu_getitem_present:
  assumes "validateGlyphName V name = Inr name'"
    and "uu_contains C V name' self = (Inr True, self')"
  shows "uu_getitem C V name self = u_getItem C name' self'"
  using assms by (simp add: uu_getitem_def py_defs)

lemma keys_getItem_hook [simp]: "keys (C\<lparr>ov_getItem := hook\<rparr>) = keys C"
  by (simp add: keys_def u_keys_def)

lemma u_contains_getItem_hook [simp]:
  "u_contains (C\<lparr>ov_getItem := hook\<rparr>) = u_contains C"
  by (cases "ov_contains C") (simp_all add: u_contains_def fun_eq_iff)

lemma uu_contains_getItem_hook [simp]:
  "uu_contains (C\<lparr>ov_getItem := hook\<rparr>) V = uu_contains C V"
  by (simp add: uu_contains_def fun_eq_iff)

text \<open>
  C4. Take a layer with the default \<^verbatim>\<open>_contains\<close> whose key listing returns \<open>ks\<close> and
  leaves the object alone, and a syntactically valid glyph name (the validator returns
  \<open>name'\<close> for it and accepts \<open>name'\<close> unchanged, as \<^verbatim>\<open>__getitem__\<close> validates twice); let
  \<^verbatim>\<open>_getItem\<close> keep its contract of not raising the not-found error itself for a name that
  is in the layer. Then \<^verbatim>\<open>name in layer\<close> returns whether \<open>name'\<close> is among the keys, and it
  returns \<open>True\<close> exactly when \<^verbatim>\<open>layer[name]\<close> does not raise the not-found error. For an
  absent name the lookup raises that error with the object unchanged, whatever \<^verbatim>\<open>_getItem\<close>
  is (any \<open>hook\<close>): it is raised before the item hook would be called. For a present name
  the lookup is the call of \<^verbatim>\<open>_getItem\<close>.
\<close>

theorem contains_agrees_with_getitem:
  assumes default: "ov_contains C = None"
    and listing: "keys C self = (Inr ks, self)"
    and valid: "validateGlyphName V name = Inr name'"
    and again: "validateGlyphName V name' = Inr name'"
    and contract: "name' \<in> set ks \<longrightarrow> \<not> is_NotFoundError (fst (u_getItem C name' self))"
  shows "uu_contains C V name self = (Inr (name' \<in> set ks), self)
       \<and> ((fst (uu_contains C V name self) = Inr True)
            = (\<not> is_NotFoundError (fst (uu_getitem C V name self))))
       \<and> (name' \<notin> set ks \<longrightarrow>
            uu_getitem (C\<lparr>ov_getItem := hook\<rparr>) V name self
              = (Inl (FontPartsError ''No glyph named %r.'' name'), self))
       \<and> (name' \<in> set ks \<longrightarrow> uu_getitem C V name self = u_getItem C name' self)"
proof -
  have c1: "uu_contains C V name self = (Inr (name' \<in> set ks), self)"
    using default listing valid by (rule uu_contains_default)
  have c2: "uu_contains C V name' self = (Inr (name' \<in> set ks), self)"
    using default listing again by (rule uu_contains_default)
  have absent: "uu_getitem (C\<lparr>ov_getItem := hook\<rparr>) V name self
              = (Inl (FontPartsError ''No glyph named %r.'' name'), self)"
    if "name' \<notin> set ks" for hook
    using that c2 by (intro uu_getitem_absent [OF valid]) simp
  have present: "uu_getitem C V name self = u_getItem C name' self" if "name' \<in> set ks"
    using that c2 by (intro uu_getitem_present [OF valid]) simp
  have iff: "(fst (uu_contains C V name self) = Inr True)
            = (\<not> is_NotFoundError (fst (uu_getitem C V name self)))"
  proof (cases "name' \<in> set ks")
    case True
    with present contract c1 show ?thesis by simp
  next
    case False
    from absent [OF False, of "ov_getItem C"]
    have "uu_getitem C V name self
            = (Inl (FontPartsError ''No glyph named %r.'' name'), self)"
      by simp
    with False c1 show ?thesis by (simp add: is_NotFoundError_def)
  qed
  from c1 iff absent present show ?thesis by blast
qed


lemma ex_keys: "keys ExLayer ex_layer = (Inr [''a'', ''b''], ex_layer)"
  by (simp add: keys_def u_keys_def ExLayer_def ex_layer_def)

theorem contains_agrees_with_getitem_witness:
  "ov_contains ExLayer = None
   \<and> keys ExLayer ex_layer = (Inr [''a'', ''b''], ex_layer)
   \<and> validateGlyphName ex_validators ''a'' = Inr ''a''
   \<and> \<not> is_NotFoundError (fst (u_getItem ExLayer ''a'' ex_layer))
   \<and> uu_contains ExLayer ex_validators ''a'' ex_layer = (Inr True, ex_layer)
   \<and> uu_getitem ExLayer ex_validators ''a'' ex_layer = (Inr 10, ex_layer)
   \<and> validateGlyphName ex_validators ''c'' = Inr ''c''
   \<and> uu_contains ExLayer ex_validators ''c'' ex_layer = (Inr False, ex_layer)
   \<and> uu_getitem ExLayer ex_validators ''c'' ex_layer
        = (Inl (FontPartsError ''No glyph named %r.'' ''c''), ex_layer)"
proof -
  have default: "ov_contains ExLayer = None" by (simp add: ExLayer_def)
  have valid_a: "validateGlyphName ex_validators ''a'' = Inr ''a''"
    by (simp add: ex_validators_def)
  have valid_c: "validateGlyphName ex_validators ''c'' = Inr ''c''"
    by (simp add: ex_validators_def)
  have item_a: "u_getItem ExLayer ''a'' ex_layer = (Inr 10, ex_layer)"
    by (simp add: u_getItem_def ExLayer_def ex_layer_def)
  have contract_a: "''a'' \<in> set [''a'', ''b'']
      \<longrightarrow> \<not> is_NotFoundError (fst (u_getItem ExLayer ''a'' ex_layer))"
    by (simp add: item_a is_NotFoundError_def)
  have contract_c: "''c'' \<in> set [''a'', ''b'']
      \<longrightarrow> \<not> is_NotFoundError (fst (u_getItem ExLayer ''c'' ex_layer))"
    by simp
  have same: "ExLayer\<lparr>ov_getItem := ov_getItem ExLayer\<rparr> = ExLayer" by simp
  from contains_agrees_with_getitem [OF default ex_keys valid_a valid_a contract_a]
  have a: "uu_contains ExLayer ex_validators ''a'' ex_layer = (Inr True, ex_layer)"
       "uu_getitem ExLayer ex_validators ''a'' ex_layer = (Inr 10, ex_layer)"
    by (simp_all add: item_a)
  from contains_agrees_with_getitem [OF default ex_keys valid_c valid_c contract_c,
         of "ov_getItem ExLayer"]
  have c: "uu_contains ExLayer ex_validators ''c'' ex_layer = (Inr False, ex_layer)"
       "uu_getitem ExLayer ex_validators ''c'' ex_layer
          = (Inl (FontPartsError ''No glyph named %r.'' ''c''), ex_layer)"
    by (simp_all only: same) simp_all
  from default ex_keys valid_a valid_c a c item_a show ?thesis
    by (simp add: is_NotFoundError_def)
qed

section \<open>The bare base class\<close>

lemma BaseLayer_overrides:
  "ov_get_name BaseLayer = None" "ov_set_name BaseLayer = None"
  "ov_get_color BaseLayer = None" "ov_set_color BaseLayer = None"
  "ov_get_lib BaseLayer = None" "ov_len BaseLayer = None" "ov_getItem BaseLayer = None"
  "ov_keys BaseLayer = None" "ov_contains BaseLayer = None"
  by (simp_all add: BaseLayer_def)

lemma keys_BaseLayer: "keys BaseLayer self = (Inl NotImplementedError, self)"
  by (simp add: keys_def u_keys_def BaseLayer_overrides py_defs)

lemma u_contains_BaseLayer: "u_contains BaseLayer name self = (Inl NotImplementedError, self)"
  by (simp add: u_contains_def BaseLayer_overrides keys_BaseLayer py_bind_def)

lemma u_get_name_BaseLayer: "u_get_name BaseLayer self = (Inl NotImplementedError, self)"
  by (simp add: u_get_name_def BaseLayer_overrides py_defs)

text \<open>
  C8. On the bare base class, which overrides nothing, every method that subclasses must
  override (\<^verbatim>\<open>_get_name\<close>, \<^verbatim>\<open>_set_name\<close>, \<^verbatim>\<open>_get_color\<close>, \<^verbatim>\<open>_set_color\<close>, \<^verbatim>\<open>_get_lib\<close>,
  \<^verbatim>\<open>_getItem\<close>, \<^verbatim>\<open>_keys\<close>) raises \<^verbatim>\<open>NotImplementedError\<close> (the spec's
  \<open>UnimplementedOperationError\<close>) for every argument, and so do the operations whose
  defaults depend on them: \<^verbatim>\<open>keys\<close>, \<^verbatim>\<open>_len\<close> and \<^verbatim>\<open>__len__\<close>, \<^verbatim>\<open>_contains\<close>, the first step
  of the iteration, reading and setting the name, reading the color, and setting the color
  to \<open>None\<close>. The public operations that validate an argument first (setting a color,
  \<^verbatim>\<open>__contains__\<close>, \<^verbatim>\<open>__getitem__\<close>) raise it for every argument that passes validation. In
  each case the object is unchanged.
\<close>

theorem bare_base_not_implemented:
  fixes C :: "('e, 'g, 'c, 'l) layer_class" and V :: "'c validators"
  assumes bare: "C = BaseLayer"
  shows "u_get_name C self = (Inl NotImplementedError, self)
   \<and> u_set_name C name_value self = (Inl NotImplementedError, self)
   \<and> u_get_color C self = (Inl NotImplementedError, self)
   \<and> u_set_color C color_value self = (Inl NotImplementedError, self)
   \<and> u_get_lib C self = (Inl NotImplementedError, self)
   \<and> u_getItem C name self = (Inl NotImplementedError, self)
   \<and> u_keys C self = (Inl NotImplementedError, self)
   \<and> keys C self = (Inl NotImplementedError, self)
   \<and> u_len C self = (Inl NotImplementedError, self)
   \<and> uu_len C self = (Inl NotImplementedError, self)
   \<and> u_contains C name self = (Inl NotImplementedError, self)
   \<and> iter_next C V uu_iter self = (Inl NotImplementedError, self)
   \<and> u_get_base_name C V self = (Inl NotImplementedError, self)
   \<and> u_set_base_name C V h name_value self = (Inl NotImplementedError, self)
   \<and> u_get_base_color C V self = (Inl NotImplementedError, self)
   \<and> u_set_base_color C V None self = (Inl NotImplementedError, self)
   \<and> (validateColor V c = Inr c' \<longrightarrow>
         u_set_base_color C V (Some c) self = (Inl NotImplementedError, self))
   \<and> (validateGlyphName V name = Inr name' \<longrightarrow>
         uu_contains C V name self = (Inl NotImplementedError, self))
   \<and> (validateGlyphName V name = Inr name' \<and> validateGlyphName V name' = Inr name'' \<longrightarrow>
         uu_getitem C V name self = (Inl NotImplementedError, self))"
proof -
  have hooks:
    "u_set_name BaseLayer name_value self = (Inl NotImplementedError, self)"
    "u_get_color BaseLayer self = (Inl NotImplementedError, self)"
    "u_set_color BaseLayer color_value self = (Inl NotImplementedError, self)"
    "u_get_lib BaseLayer self = (Inl NotImplementedError, self)"
    "u_getItem BaseLayer name self = (Inl NotImplementedError, self)"
    "u_keys BaseLayer self = (Inl NotImplementedError, self)"
    for name_value and color_value :: "'c option"
    by (simp_all add: u_set_name_def u_get_color_def u_set_color_def u_get_lib_def
          u_getItem_def u_keys_def BaseLayer_overrides py_defs)
  have len: "u_len BaseLayer self = (Inl NotImplementedError, self)"
            "uu_len BaseLayer self = (Inl NotImplementedError, self)"
    by (simp_all add: uu_len_def u_len_def BaseLayer_overrides keys_BaseLayer py_bind_def)
  have iter: "iter_next BaseLayer V uu_iter self = (Inl NotImplementedError, self)"
    by (simp add: iter_next_def uu_iter_def u_iter_def keys_BaseLayer py_bind_def)
  have name: "u_get_base_name BaseLayer V self = (Inl NotImplementedError, self)"
    by (simp add: u_get_base_name_def u_get_name_BaseLayer py_bind_def)
  have set_name: "u_set_base_name BaseLayer V h name_value self = (Inl NotImplementedError, self)"
    by (simp add: u_set_base_name_def name py_bind_def)
  have color: "u_get_base_color BaseLayer V self = (Inl NotImplementedError, self)"
    by (simp add: u_get_base_color_def hooks py_bind_def)
  have set_color_None: "u_set_base_color BaseLayer V None self = (Inl NotImplementedError, self)"
    by (simp add: u_set_base_color_def hooks py_defs)
  have set_color: "u_set_base_color BaseLayer V (Some c) self = (Inl NotImplementedError, self)"
    if "validateColor V c = Inr c'"
    using that by (simp add: u_set_base_color_def hooks py_defs)
  have contains: "uu_contains BaseLayer V n self = (Inl NotImplementedError, self)"
    if "validateGlyphName V n = Inr n'" for n n'
    using that by (simp add: uu_contains_def u_contains_BaseLayer py_defs)
  have getitem: "uu_getitem BaseLayer V name self = (Inl NotImplementedError, self)"
    if "validateGlyphName V name = Inr name'" "validateGlyphName V name' = Inr name''"
    using that by (simp add: uu_getitem_def contains [OF that(2)] py_defs)
  show ?thesis
    unfolding bare
    using u_get_name_BaseLayer hooks keys_BaseLayer len u_contains_BaseLayer iter name
      set_name color set_color_None set_color contains getitem
    by blast
qed


theorem bare_base_not_implemented_witness:
  "ex_bare = BaseLayer
   \<and> validateColor ex_validators [1, 0, 0, 1] = Inr [1, 0, 0, 1]
   \<and> validateGlyphName ex_validators ''a'' = Inr ''a''
   \<and> u_set_base_color ex_bare ex_validators (Some [1, 0, 0, 1]) ex_detached
        = (Inl NotImplementedError, ex_detached)
   \<and> uu_contains ex_bare ex_validators ''a'' ex_detached
        = (Inl NotImplementedError, ex_detached)
   \<and> uu_getitem ex_bare ex_validators ''a'' ex_detached
        = (Inl NotImplementedError, ex_detached)
   \<and> uu_len ex_bare ex_detached = (Inl NotImplementedError, ex_detached)
   \<and> u_set_base_name ex_bare ex_validators ex_heap (Some ''sketches'') ex_detached
        = (Inl NotImplementedError, ex_detached)"
proof -
  have valid_color: "validateColor ex_validators [1, 0, 0, 1] = Inr [1, 0, 0, 1]"
    by (simp add: ex_validators_def)
  have valid_name: "validateGlyphName ex_validators ''a'' = Inr ''a''"
    by (simp add: ex_validators_def)
  from bare_base_not_implemented
         [OF ex_bare_def, where self = ex_detached and V = ex_validators and h = ex_heap
            and name_value = "Some ''sketches''" and name = "''a''" and name' = "''a''"
            and name'' = "''a''" and c = "[1, 0, 0, 1]" and c' = "[1, 0, 0, 1]"
            and color_value = None]
       valid_color valid_name ex_bare_def
  show ?thesis by simp
qed

section \<open>Iteration\<close>

lemma iter_collect_Suspended:
  "iter_collect C V (Suspended (n # ns)) self = py_mapM (uu_getitem C V) ns self"
proof (induction ns arbitrary: n self)
  case Nil
  show ?case
    by (subst iter_collect.simps) (simp add: iter_next_def iter_loop_def py_return_def)
next
  case (Cons m rest)
  show ?case
  proof (cases "uu_getitem C V m self")
    case (Pair r self')
    show ?thesis
    proof (cases r)
      case (Inl e)
      with Pair show ?thesis
        by (subst iter_collect.simps) (simp add: iter_next_def iter_loop_def py_bind_def)
    next
      case (Inr g)
      with Pair Cons.IH [of m self'] show ?thesis
        by (subst iter_collect.simps)
           (simp add: iter_next_def iter_loop_def py_bind_def py_return_def
                 split: prod.splits sum.splits)
    qed
  qed
qed

lemma iter_collect_Created:
  "iter_collect C V Created self = py_bind (keys C) (py_mapM (uu_getitem C V)) self"
proof (cases "keys C self")
  case (Pair r self')
  show ?thesis
  proof (cases r)
    case (Inl e)
    with Pair show ?thesis
      by (subst iter_collect.simps) (simp add: iter_next_def py_bind_def)
  next
    case (Inr ks)
    show ?thesis
    proof (cases ks)
      case Nil
      with Pair Inr show ?thesis
        by (subst iter_collect.simps)
           (simp add: iter_next_def iter_loop_def py_bind_def py_return_def)
    next
      case (Cons k rest)
      show ?thesis
      proof (cases "uu_getitem C V k self'")
        case getitem: (Pair r' self'')
        show ?thesis
        proof (cases r')
          case (Inl e)
          with Pair Inr Cons getitem show ?thesis
            by (subst iter_collect.simps) (simp add: iter_next_def iter_loop_def py_bind_def)
        next
          case glyph: (Inr g)
          with Pair Inr Cons getitem iter_collect_Suspended [of C V k rest self'']
          show ?thesis
            by (subst iter_collect.simps)
               (simp add: iter_next_def iter_loop_def py_bind_def py_return_def
                     split: prod.splits sum.splits)
        qed
      qed
    qed
  qed
qed

lemma py_mapM_unchanged:
  assumes "\<forall>n \<in> set ks. \<exists>g. f n s = (Inr g, s)"
  shows "\<exists>gs. py_mapM f ks s = (Inr gs, s) \<and> list_all2 (\<lambda>n g. f n s = (Inr g, s)) ks gs"
  using assms
proof (induction ks)
  case Nil
  show ?case by (simp add: py_return_def)
next
  case (Cons k ks)
  from Cons.prems obtain g where g: "f k s = (Inr g, s)" by auto
  from Cons.prems have "\<forall>n \<in> set ks. \<exists>g. f n s = (Inr g, s)" by simp
  from Cons.IH [OF this] obtain gs
    where gs: "py_mapM f ks s = (Inr gs, s)" "list_all2 (\<lambda>n g. f n s = (Inr g, s)) ks gs"
    by blast
  have "py_mapM f (k # ks) s = (Inr (g # gs), s)"
    using g gs(1) by (simp add: py_bind_def py_return_def)
  moreover have "list_all2 (\<lambda>n g. f n s = (Inr g, s)) (k # ks) (g # gs)"
    using g gs(2) by simp
  ultimately show ?case by blast
qed

text \<open>
  C5. Take a layer whose key listing returns \<open>ks\<close> and leaves the object alone, and on
  which the indexed lookup of each listed name returns a glyph and leaves the object alone
  (keys and item hooks implemented, nothing mutates the layer during the iteration). Then
  the default iteration, driven to its end, terminates with a list of glyphs and the
  object unchanged; the list has one glyph for each entry of the key listing, in the order
  of the listing, and the glyph at each position is the one the indexed lookup of the name
  at that position returns: no name is left out and none is visited twice.
\<close>

theorem iter_yields_each_key_once:
  assumes listing: "keys C self = (Inr ks, self)"
    and lookups: "\<forall>n \<in> set ks. \<exists>g. uu_getitem C V n self = (Inr g, self)"
  shows "\<exists>gs. iter_collect C V uu_iter self = (Inr gs, self)
            \<and> length gs = length ks
            \<and> list_all2 (\<lambda>n g. uu_getitem C V n self = (Inr g, self)) ks gs"
proof -
  from py_mapM_unchanged [of ks "uu_getitem C V" self, OF lookups] obtain gs
    where gs: "py_mapM (uu_getitem C V) ks self = (Inr gs, self)"
              "list_all2 (\<lambda>n g. uu_getitem C V n self = (Inr g, self)) ks gs"
    by blast
  have "iter_collect C V uu_iter self = (Inr gs, self)"
    using listing gs(1)
    by (simp add: uu_iter_def u_iter_def iter_collect_Created py_bind_def)
  moreover from gs(2) have "length gs = length ks"
    by (simp add: list_all2_lengthD)
  ultimately show ?thesis using gs(2) by blast
qed

lemma ex_getitem_a: "uu_getitem ExLayer ex_validators ''a'' ex_layer = (Inr 10, ex_layer)"
  by (simp add: uu_getitem_def uu_contains_def u_contains_def u_getItem_def keys_def
        u_keys_def ExLayer_def ex_validators_def ex_layer_def py_defs)

lemma ex_getitem_b: "uu_getitem ExLayer ex_validators ''b'' ex_layer = (Inr 11, ex_layer)"
  by (simp add: uu_getitem_def uu_contains_def u_contains_def u_getItem_def keys_def
        u_keys_def ExLayer_def ex_validators_def ex_layer_def py_defs)

theorem iter_yields_each_key_once_witness:
  "keys ExLayer ex_layer = (Inr [''a'', ''b''], ex_layer)
   \<and> uu_getitem ExLayer ex_validators ''a'' ex_layer = (Inr 10, ex_layer)
   \<and> uu_getitem ExLayer ex_validators ''b'' ex_layer = (Inr 11, ex_layer)
   \<and> iter_collect ExLayer ex_validators uu_iter ex_layer = (Inr [10, 11], ex_layer)"
proof -
  have lookups: "\<forall>n \<in> set [''a'', ''b''].
                   \<exists>g. uu_getitem ExLayer ex_validators n ex_layer = (Inr g, ex_layer)"
    by (simp add: ex_getitem_a ex_getitem_b)
  from iter_yields_each_key_once [OF ex_keys lookups] obtain gs
    where gs: "iter_collect ExLayer ex_validators uu_iter ex_layer = (Inr gs, ex_layer)"
      "list_all2 (\<lambda>n g. uu_getitem ExLayer ex_validators n ex_layer = (Inr g, ex_layer))
         [''a'', ''b''] gs"
    by blast
  from gs(2) have "gs = [10, 11]"
    by (auto simp: list_all2_Cons1 ex_getitem_a ex_getitem_b)
  with gs(1) ex_keys ex_getitem_a ex_getitem_b show ?thesis by simp
qed


lemma u_getItem_keys_hook: "u_getItem (C\<lparr>ov_keys := k\<rparr>) = u_getItem C"
  by (simp add: u_getItem_def fun_eq_iff)

lemma u_contains_keys_hook:
  "ov_contains C = Some f \<Longrightarrow> u_contains (C\<lparr>ov_keys := k\<rparr>) = u_contains C"
  by (simp add: u_contains_def fun_eq_iff)

lemma keys_keys_hook_overridden_contains:
  assumes "ov_contains C = Some f"
  shows "uu_getitem (C\<lparr>ov_keys := k\<rparr>) V = uu_getitem C V"
  by (rule ext)
     (simp add: uu_getitem_def uu_contains_def u_contains_keys_hook [OF assms]
        u_getItem_keys_hook cong: if_cong)

text \<open>
  C6, as amended. The default iteration fetches the key list from the keys hook once, at
  its first step, and keeps it: every later step drops the first name of the list it kept
  and looks up the next one, ending when none is left. Driven to its end it is one fetch of
  the key list followed by the indexed lookup of each of its names in order. The keys hook
  is called again only inside a lookup, by the default membership test: for a class that
  overrides \<^verbatim>\<open>_contains\<close>, a later step is the same whatever the keys hook is.
\<close>

theorem iter_takes_names_from_snapshot:
  "iter_next C V uu_iter = py_bind (keys C) (iter_loop C V)
   \<and> iter_next C V (Suspended (n # names)) = iter_loop C V names
   \<and> iter_loop C V [] = py_return (None, Finished)
   \<and> iter_loop C V (m # rest)
       = py_bind (uu_getitem C V m) (\<lambda>glyph. py_return (Some glyph, Suspended (m # rest)))
   \<and> iter_collect C V uu_iter = py_bind (keys C) (py_mapM (uu_getitem C V))
   \<and> (ov_contains C \<noteq> None \<longrightarrow>
        iter_next (C\<lparr>ov_keys := k\<rparr>) V (Suspended (n # names))
          = iter_next C V (Suspended (n # names)))"
proof -
  have collect: "iter_collect C V uu_iter = py_bind (keys C) (py_mapM (uu_getitem C V))"
    by (rule ext) (simp add: uu_iter_def u_iter_def iter_collect_Created)
  have indep: "iter_next (C\<lparr>ov_keys := k\<rparr>) V (Suspended (n # names))
                 = iter_next C V (Suspended (n # names))"
    if "ov_contains C \<noteq> None"
  proof -
    from that obtain f where "ov_contains C = Some f" by auto
    then have "uu_getitem (C\<lparr>ov_keys := k\<rparr>) V = uu_getitem C V"
      by (rule keys_keys_hook_overridden_contains)
    then show ?thesis
      by (simp add: iter_next_def iter_loop_def cong: list.case_cong)
  qed
  show ?thesis
    using collect indep
    by (simp add: iter_next_def iter_loop_def uu_iter_def u_iter_def)
qed

theorem iter_takes_names_from_snapshot_witness:
  "ov_contains ExLayerFast \<noteq> None
   \<and> iter_next (ExLayerFast\<lparr>ov_keys := Some (py_return [''c''])\<rparr>) ex_validators
         (Suspended [''a'', ''b'']) ex_layer
       = (Inr (Some 11, Suspended [''b'']), ex_layer)
   \<and> iter_next ExLayerFast ex_validators (Suspended [''a'', ''b'']) ex_layer
       = (Inr (Some 11, Suspended [''b'']), ex_layer)"
proof -
  have ov: "ov_contains ExLayerFast \<noteq> None" by (simp add: ExLayerFast_def)
  have step: "iter_next ExLayerFast ex_validators (Suspended [''a'', ''b'']) ex_layer
       = (Inr (Some 11, Suspended [''b'']), ex_layer)"
    by (simp add: iter_next_def iter_loop_def uu_getitem_def uu_contains_def u_contains_def
          u_getItem_def ExLayerFast_def ExLayer_def ex_validators_def ex_layer_def py_defs)
  from iter_takes_names_from_snapshot
         [where C = ExLayerFast and V = ex_validators and n = "''a''" and names = "[''b'']"
            and k = "Some (py_return [''c''])"]
       ov step
  show ?thesis by simp
qed

text \<open>
  C6 as stated fails. The iteration over the layer with glyphs \<open>a\<close> and \<open>b\<close> yields the
  glyph of \<open>a\<close>, as the re-fetching step would. The layer is then changed: \<open>b\<close> is removed
  and \<open>c\<close> added, so that a fresh key list is \<open>[a, c]\<close>. The next step of the source looks
  up \<open>b\<close>, the next name of the list it kept, and raises; a step taking the first remaining
  name of the freshly fetched list yields the glyph of \<open>c\<close>.
\<close>

theorem iter_refetch_counterexample:
  "iter_next ExLayer ex_validators uu_iter ex_layer
       = (Inr (Some 10, Suspended [''a'', ''b'']), ex_layer)
   \<and> refetch_next ExLayer ex_validators [] ex_layer = (Inr (Some 10, [''a'']), ex_layer)
   \<and> keys ExLayer ex_layer_changed = (Inr [''a'', ''c''], ex_layer_changed)
   \<and> iter_next ExLayer ex_validators (Suspended [''a'', ''b'']) ex_layer_changed
       = (Inl (FontPartsError ''No glyph named %r.'' ''b''), ex_layer_changed)
   \<and> refetch_next ExLayer ex_validators [''a''] ex_layer_changed
       = (Inr (Some 12, [''a'', ''c'']), ex_layer_changed)"
  by (simp add: iter_next_def iter_loop_def refetch_next_def uu_iter_def u_iter_def
        uu_getitem_def uu_contains_def u_contains_def u_getItem_def keys_def u_keys_def
        ExLayer_def ex_validators_def ex_layer_def ex_layer_changed_def py_defs)


end
